theory Spec2Isabelle
  imports Main
begin

section \<open>Email verification with one-time codes: the two programs\<close>

text \<open>
  The repository holds two near-duplicate programs. \<^verbatim>\<open>main.go\<close> keeps the
  records in Redis (keys with a time to live); the second program keeps them in a SQL
  Server table. Both define \<^verbatim>\<open>SendVerificationEmail\<close> and \<^verbatim>\<open>VerifyOTP\<close>; the
  embedding suffixes the names with \<open>_redis\<close> and \<open>_sql\<close>.

  Conventions of the embedding:
  \<^item> a point in time is an \<open>int\<close>, the nanoseconds since the Unix epoch (Go's
    \<^verbatim>\<open>time.Time\<close> at its wall-clock reading; a \<^verbatim>\<open>time.Duration\<close> is a number of
    nanoseconds as well);
  \<^item> one call of the service runs at one instant, \<open>now env\<close>;
  \<^item> a Go \<^verbatim>\<open>error\<close> result is an \<open>error option\<close> (\<open>None\<close> is \<^verbatim>\<open>nil\<close>), returned
    together with the store the call leaves behind;
  \<^item> whether a collaborator (Redis, the database, the SMTP server) fails at a call is
    read from the call's environment; a failed store operation leaves the store as
    it was.
\<close>

subsection \<open>Constants\<close>

definition OTPLength :: nat where
  "OTPLength = 6"

definition OTPExpiryMinutes :: int where
  "OTPExpiryMinutes = 10"

definition MaxAttempts :: int where
  "MaxAttempts = 3"

definition ResendDelayMins :: int where
  "ResendDelayMins = 1"

text \<open>Go's \<^verbatim>\<open>time.Minute\<close>, in nanoseconds.\<close>

definition Minute :: int where
  "Minute = 60000000000"

subsection \<open>Types\<close>

text \<open>
  \<^verbatim>\<open>OTPRecord\<close> of \<^verbatim>\<open>main.go\<close>. The SQL program's struct has the same fields and the
  table's identity column \<^verbatim>\<open>ID\<close>; it is the extension \<open>OTPRow\<close>.
\<close>

record OTPRecord =
  Email :: string
  OTP :: string
  CreatedAt :: int
  Attempts :: int
  Verified :: bool

record OTPRow = OTPRecord +
  ID :: int

text \<open>
  The errors the two programs return, named after what their messages say:
  \<^item> \<open>ThrottleError n\<close>: \<^verbatim>\<open>"please wait %d minutes before requesting a new OTP"\<close>, with
    \<open>n\<close> the number printed;
  \<^item> \<open>NotFoundError\<close>: \<^verbatim>\<open>"no verification code found or code has expired"\<close>;
  \<^item> \<open>AlreadyVerifiedError\<close>: \<^verbatim>\<open>"email is already verified"\<close>;
  \<^item> \<open>AttemptsExhausted\<close>: \<^verbatim>\<open>"maximum verification attempts exceeded"\<close>;
  \<^item> \<open>MismatchError\<close>: \<^verbatim>\<open>"invalid verification code"\<close>;
  \<^item> \<open>DeliveryError\<close>: the error of \<^verbatim>\<open>SendEmail\<close>;
  \<^item> \<open>StorageError\<close>: a transport error of Redis or of the database;
  \<^item> \<open>RedisNil\<close>: go-redis's \<^verbatim>\<open>redis.Nil\<close>, the reply to a GET of a key that is not
    there.
\<close>

datatype error =
    ThrottleError int
  | NotFoundError
  | AlreadyVerifiedError
  | AttemptsExhausted
  | MismatchError
  | DeliveryError
  | StorageError
  | RedisNil

text \<open>
  What one call reads from outside the program: the clock (\<open>now\<close>), the successive
  readings of \<^verbatim>\<open>time.Now().UnixNano()\<close> inside \<^verbatim>\<open>generateOTP\<close> (\<open>nanos i\<close> is the
  reading of iteration \<open>i\<close>; a clock after 1970 reads a natural number), and which
  collaborators fail.
\<close>

record env =
  now :: int
  nanos :: "nat \<Rightarrow> nat"
  getFails :: bool
  storeFails :: bool
  deleteFails :: bool
  updateFails :: bool
  cleanupFails :: bool
  sendFails :: bool

subsection \<open>Code generation and delivery (both programs)\<close>

definition digits :: string where
  "digits = ''0123456789''"

text \<open>
  \<^verbatim>\<open>for i := range otp { otp[i] = digits[time.Now().UnixNano()%int64(len(digits))] }\<close>
\<close>

definition generateOTP :: "(nat \<Rightarrow> nat) \<Rightarrow> string" where
  "generateOTP clock = map (\<lambda>i. digits ! (clock i mod length digits)) [0..<OTPLength]"

text \<open>
  \<^verbatim>\<open>SMTPEmailService.SendEmail\<close> hands the message to the SMTP server. The service
  sees only whether that failed; the rendering of the message is not modelled.
\<close>

definition SendEmail :: "env \<Rightarrow> string \<Rightarrow> string \<Rightarrow> string \<Rightarrow> error option" where
  "SendEmail env to subject body = (if sendFails env then Some DeliveryError else None)"

text \<open>
  \<^verbatim>\<open>time.Since(existingRecord.CreatedAt).Minutes() < ResendDelayMins\<close>. \<^verbatim>\<open>Minutes()\<close>
  is a float64: the whole minutes plus the remaining nanoseconds divided by
  \<open>6e10\<close>. For a duration below one minute that is below 1, and from one minute
  on it is at least 1, so the comparison is the integer one on nanoseconds.
\<close>

definition throttled :: "env \<Rightarrow> 'a OTPRecord_scheme \<Rightarrow> bool" where
  "throttled env existingRecord \<longleftrightarrow>
     now env - CreatedAt existingRecord < ResendDelayMins * Minute"

subsection \<open>Strings through JSON\<close>

text \<open>
  The Redis program stores \<^verbatim>\<open>json.Marshal(record)\<close> and reads it back with
  \<^verbatim>\<open>json.Unmarshal\<close>. A string is a list of bytes. The encoder of Go's
  \<^verbatim>\<open>encoding/json\<close> walks the string rune by rune (\<^verbatim>\<open>utf8.DecodeRuneInString\<close>); a
  byte that starts no valid UTF-8 encoding is written as the escape of U+FFFD and the walk goes
  on at the next byte. Everything else is read back as it was written (the escapes
  of the encoder are undone by the decoder). So the string read back is the string
  stored with each invalid byte replaced by the three bytes of U+FFFD.

  \<open>runeSize s\<close> is the number of bytes of the rune encoded at the head of \<open>s\<close>,
  and 0 where Go's decoder answers \<^verbatim>\<open>(RuneError, 1)\<close>: the table of
  \<^verbatim>\<open>unicode/utf8\<close> (no overlong forms, no surrogates, nothing above U+10FFFF).
\<close>

definition continuationByte :: "char \<Rightarrow> bool" where
  "continuationByte c \<longleftrightarrow> 0x80 \<le> (of_char c :: nat) \<and> (of_char c :: nat) \<le> 0xBF"

definition secondLo :: "nat \<Rightarrow> nat" where
  "secondLo b0 = (if b0 = 0xE0 then 0xA0 else if b0 = 0xF0 then 0x90 else 0x80)"

definition secondHi :: "nat \<Rightarrow> nat" where
  "secondHi b0 = (if b0 = 0xED then 0x9F else if b0 = 0xF4 then 0x8F else 0xBF)"

fun runeSize :: "string \<Rightarrow> nat" where
  "runeSize [] = 0"
| "runeSize (c # cs) =
     (let b0 = (of_char c :: nat) in
      if b0 < 0x80 then 1
      else if b0 < 0xC2 \<or> 0xF4 < b0 then 0
      else (case cs of
              [] \<Rightarrow> 0
            | c1 # cs1 \<Rightarrow>
                if of_char c1 < secondLo b0 \<or> secondHi b0 < of_char c1 then 0
                else if b0 < 0xE0 then 2
                else (case cs1 of
                        [] \<Rightarrow> 0
                      | c2 # cs2 \<Rightarrow>
                          if \<not> continuationByte c2 then 0
                          else if b0 < 0xF0 then 3
                          else (case cs2 of
                                  [] \<Rightarrow> 0
                                | c3 # cs3 \<Rightarrow> if continuationByte c3 then 4 else 0))))"

text \<open>U+FFFD in UTF-8.\<close>

definition replacementChar :: string where
  "replacementChar = [CHR 0xEF, CHR 0xBF, CHR 0xBD]"

text \<open>
  \<open>jsonStringFrom k s\<close> copies the \<open>k\<close> bytes that remain of a rune already
  accepted, then walks on.
\<close>

fun jsonStringFrom :: "nat \<Rightarrow> string \<Rightarrow> string" where
  "jsonStringFrom k [] = []"
| "jsonStringFrom k (c # cs) =
     (if 0 < k then c # jsonStringFrom (k - 1) cs
      else if runeSize (c # cs) = 0 then replacementChar @ jsonStringFrom 0 cs
      else c # jsonStringFrom (runeSize (c # cs) - 1) cs)"

definition jsonString :: "string \<Rightarrow> string" where
  "jsonString s = jsonStringFrom 0 s"

text \<open>
  A string is valid UTF-8 when the walk replaces nothing (a replacement makes the
  string longer, so this is when the string comes back as it was).
\<close>

definition validUTF8 :: "string \<Rightarrow> bool" where
  "validUTF8 s \<longleftrightarrow> jsonString s = s"

text \<open>
  The record read back from the JSON of a record: the two strings go through the
  encoder, the other fields come back as they were.
\<close>

definition jsonRecord :: "OTPRecord \<Rightarrow> OTPRecord" where
  "jsonRecord record = record\<lparr>Email := jsonString (Email record), OTP := jsonString (OTP record)\<rparr>"

subsection \<open>The Redis program (main.go)\<close>

text \<open>
  The Redis server: each key holds the JSON of a record, kept as the record that
  \<^verbatim>\<open>json.Unmarshal\<close> reads back from it, and the instant at which the key expires.
  A key is expired once the clock is past that instant. \<^verbatim>\<open>StoreOTP\<close> builds the key
  from the bytes of \<^verbatim>\<open>record.Email\<close> as they are.
\<close>

type_synonym redis = "string \<rightharpoonup> (OTPRecord \<times> int)"

definition key :: "string \<Rightarrow> string" where
  "key email = ''email_verification:'' @ email"

definition StoreOTP_redis :: "env \<Rightarrow> OTPRecord \<Rightarrow> redis \<Rightarrow> error option \<times> redis" where
  "StoreOTP_redis env record db =
     (if storeFails env then (Some StorageError, db)
      else (None, db(key (Email record) \<mapsto>
                       (jsonRecord record, now env + Minute * OTPExpiryMinutes))))"

definition GetOTP_redis :: "env \<Rightarrow> string \<Rightarrow> redis \<Rightarrow> error + OTPRecord" where
  "GetOTP_redis env email db =
     (if getFails env then Inl StorageError
      else case db (key email) of
             None \<Rightarrow> Inl RedisNil
           | Some (record, deadline) \<Rightarrow>
               if deadline < now env then Inl RedisNil else Inr record)"

definition DeleteOTP_redis :: "env \<Rightarrow> string \<Rightarrow> redis \<Rightarrow> error option \<times> redis" where
  "DeleteOTP_redis env email db =
     (if deleteFails env then (Some StorageError, db)
      else (None, db(key email := None)))"

definition SendVerificationEmail_redis :: "env \<Rightarrow> string \<Rightarrow> redis \<Rightarrow> error option \<times> redis" where
  "SendVerificationEmail_redis env email db =
     (if (case GetOTP_redis env email db of
            Inr existingRecord \<Rightarrow> throttled env existingRecord
          | Inl err \<Rightarrow> False)
      then (Some (ThrottleError ResendDelayMins), db)
      else
        let otp = generateOTP (nanos env);
            record = \<lparr>Email = email, OTP = otp, CreatedAt = now env,
                      Attempts = 0, Verified = False\<rparr>
        in case StoreOTP_redis env record db of
             (Some err, db1) \<Rightarrow> (Some err, db1)
           | (None, db1) \<Rightarrow>
               (case SendEmail env email ''Email Verification Code'' otp of
                  Some err \<Rightarrow> (Some err, snd (DeleteOTP_redis env email db1))
                | None \<Rightarrow> (None, db1)))"

definition VerifyOTP_redis :: "env \<Rightarrow> string \<Rightarrow> string \<Rightarrow> redis \<Rightarrow> error option \<times> redis" where
  "VerifyOTP_redis env email providedOTP db =
     (case GetOTP_redis env email db of
        Inl err \<Rightarrow> (Some NotFoundError, db)
      | Inr record \<Rightarrow>
          if Verified record then (Some AlreadyVerifiedError, db)
          else if Attempts record \<ge> MaxAttempts
          then (Some AttemptsExhausted, snd (DeleteOTP_redis env email db))
          else
            let record = record\<lparr>Attempts := Attempts record + 1\<rparr>
            in if OTP record \<noteq> providedOTP
               then (Some MismatchError, snd (StoreOTP_redis env record db))
               else StoreOTP_redis env (record\<lparr>Verified := True\<rparr>) db)"

subsection \<open>The SQL Server program\<close>

text \<open>
  The table \<^verbatim>\<open>otp_verifications\<close>: its rows, and the next value of the identity
  column \<^verbatim>\<open>id BIGINT IDENTITY(1,1)\<close>.
\<close>

record sqldb =
  rows :: "OTPRow list"
  nextId :: int

definition emptyTable :: sqldb where
  "emptyTable = \<lparr>rows = [], nextId = 1\<rparr>"

text \<open>The row with a given email: the table's rows are matched on \<^verbatim>\<open>email\<close> only.\<close>

definition selectRow :: "string \<Rightarrow> sqldb \<Rightarrow> OTPRow option" where
  "selectRow email db = find (\<lambda>row. Email row = email) (rows db)"

text \<open>
  \<^verbatim>\<open>MERGE ... ON target.email = source.email WHEN MATCHED THEN UPDATE SET otp, created_at,
  attempts, verified WHEN NOT MATCHED THEN INSERT (email, otp, created_at, attempts, verified)\<close>
\<close>

definition StoreOTP_sql :: "env \<Rightarrow> OTPRow \<Rightarrow> sqldb \<Rightarrow> error option \<times> sqldb" where
  "StoreOTP_sql env record db =
     (if storeFails env then (Some StorageError, db)
      else if selectRow (Email record) db \<noteq> None
      then (None, db\<lparr>rows :=
              map (\<lambda>row. if Email row = Email record
                          then row\<lparr>OTP := OTP record, CreatedAt := CreatedAt record,
                                   Attempts := Attempts record, Verified := Verified record\<rparr>
                          else row) (rows db)\<rparr>)
      else (None, db\<lparr>rows := rows db @ [record\<lparr>ID := nextId db\<rparr>],
                      nextId := nextId db + 1\<rparr>))"

text \<open>
  \<^verbatim>\<open>SELECT ... WHERE email = @Email\<close>, first row scanned; \<^verbatim>\<open>sql.ErrNoRows\<close> gives
  \<^verbatim>\<open>(nil, nil)\<close>, here \<open>Inr None\<close>.
\<close>

definition GetOTP_sql :: "env \<Rightarrow> string \<Rightarrow> sqldb \<Rightarrow> error + OTPRow option" where
  "GetOTP_sql env email db =
     (if getFails env then Inl StorageError else Inr (selectRow email db))"

text \<open>
  \<^verbatim>\<open>UPDATE otp_verifications SET attempts = @Attempts, verified = @Verified WHERE email = @Email\<close>;
  \<open>updateRow\<close> is what the statement does to one row.
\<close>

definition updateRow :: "string \<Rightarrow> int \<Rightarrow> bool \<Rightarrow> OTPRow \<Rightarrow> OTPRow" where
  "updateRow email attempts verified row =
     (if Email row = email then row\<lparr>Attempts := attempts, Verified := verified\<rparr> else row)"

definition UpdateOTP_sql :: "env \<Rightarrow> OTPRow \<Rightarrow> sqldb \<Rightarrow> error option \<times> sqldb" where
  "UpdateOTP_sql env record db =
     (if updateFails env then (Some StorageError, db)
      else (None, db\<lparr>rows :=
              map (updateRow (Email record) (Attempts record) (Verified record)) (rows db)\<rparr>))"

text \<open>
  \<^verbatim>\<open>DELETE FROM otp_verifications WHERE created_at < DATEADD(MINUTE, -@ExpiryMinutes, GETDATE())
  AND verified = 0\<close>
\<close>

definition CleanupExpiredOTPs_sql :: "env \<Rightarrow> sqldb \<Rightarrow> error option \<times> sqldb" where
  "CleanupExpiredOTPs_sql env db =
     (if cleanupFails env then (Some StorageError, db)
      else (None, db\<lparr>rows :=
              filter (\<lambda>row. \<not> (CreatedAt row < now env - OTPExpiryMinutes * Minute
                                 \<and> \<not> Verified row)) (rows db)\<rparr>))"

definition SendVerificationEmail_sql :: "env \<Rightarrow> string \<Rightarrow> sqldb \<Rightarrow> error option \<times> sqldb" where
  "SendVerificationEmail_sql env email db0 =
     (let db = snd (CleanupExpiredOTPs_sql env db0)
      in case GetOTP_sql env email db of
           Inl err \<Rightarrow> (Some err, db)
         | Inr existingRecord \<Rightarrow>
             if (case existingRecord of
                   None \<Rightarrow> False
                 | Some existing \<Rightarrow> throttled env existing)
             then (Some (ThrottleError ResendDelayMins), db)
             else
               let otp = generateOTP (nanos env);
                   record = \<lparr>Email = email, OTP = otp, CreatedAt = now env,
                             Attempts = 0, Verified = False, ID = 0\<rparr>
               in (case StoreOTP_sql env record db of
                     (Some err, db1) \<Rightarrow> (Some err, db1)
                   | (None, db1) \<Rightarrow>
                       (SendEmail env email ''Email Verification Code'' otp, db1)))"

definition VerifyOTP_sql :: "env \<Rightarrow> string \<Rightarrow> string \<Rightarrow> sqldb \<Rightarrow> error option \<times> sqldb" where
  "VerifyOTP_sql env email providedOTP db =
     (case GetOTP_sql env email db of
        Inl err \<Rightarrow> (Some err, db)
      | Inr None \<Rightarrow> (Some NotFoundError, db)
      | Inr (Some record) \<Rightarrow>
          if Verified record then (Some AlreadyVerifiedError, db)
          else if Attempts record \<ge> MaxAttempts then (Some AttemptsExhausted, db)
          else
            let record = record\<lparr>Attempts := Attempts record + 1\<rparr>
            in if OTP record \<noteq> providedOTP
               then (case UpdateOTP_sql env record db of
                       (Some err, db1) \<Rightarrow> (Some err, db1)
                     | (None, db1) \<Rightarrow> (Some MismatchError, db1))
               else UpdateOTP_sql env (record\<lparr>Verified := True\<rparr>) db)"

subsection \<open>Callers\<close>

text \<open>
  A caller that sends verification requests one after the other: each request has
  its own environment, email and code. The result is the list of the calls' errors
  and the store after the last call.
\<close>

fun VerifyOTP_redis_calls ::
  "(env \<times> string \<times> string) list \<Rightarrow> redis \<Rightarrow> error option list \<times> redis" where
  "VerifyOTP_redis_calls [] db = ([], db)"
| "VerifyOTP_redis_calls ((env, email, providedOTP) # calls) db =
     (case VerifyOTP_redis env email providedOTP db of
        (err, db1) \<Rightarrow>
          (case VerifyOTP_redis_calls calls db1 of
             (errs, db2) \<Rightarrow> (err # errs, db2)))"

fun VerifyOTP_sql_calls ::
  "(env \<times> string \<times> string) list \<Rightarrow> sqldb \<Rightarrow> error option list \<times> sqldb" where
  "VerifyOTP_sql_calls [] db = ([], db)"
| "VerifyOTP_sql_calls ((env, email, providedOTP) # calls) db =
     (case VerifyOTP_sql env email providedOTP db of
        (err, db1) \<Rightarrow>
          (case VerifyOTP_sql_calls calls db1 of
             (errs, db2) \<Rightarrow> (err # errs, db2)))"

subsection \<open>Properties of stores and records\<close>


text \<open>
  The wait that remains before a new code may be requested, in nanoseconds: the
  resend delay less the time since the record was created. (The specification's
  notion; the programs do not compute it.)
\<close>

definition remainingWait :: "env \<Rightarrow> 'a OTPRecord_scheme \<Rightarrow> int" where
  "remainingWait env existingRecord =
     ResendDelayMins * Minute - (now env - CreatedAt existingRecord)"

text \<open>
  The specification's reading of a throttled request: the error is a \<open>ThrottleError\<close>
  and the minutes it prints are the wait that remains.
\<close>

definition carriesRemainingWait :: "env \<Rightarrow> 'a OTPRecord_scheme \<Rightarrow> error option \<Rightarrow> bool" where
  "carriesRemainingWait env existingRecord err \<longleftrightarrow>
     (case err of
        Some (ThrottleError n) \<Rightarrow> n * Minute = remainingWait env existingRecord
      | _ \<Rightarrow> False)"

subsection \<open>Concrete environments and stores\<close>

text \<open>
  \<open>calm t\<close> is a call at instant \<open>t\<close> during which no collaborator fails;
  its clock readings make \<^verbatim>\<open>generateOTP\<close> return \<open>''185296''\<close>.
\<close>

definition calm :: "int \<Rightarrow> env" where
  "calm t = \<lparr>now = t, nanos = (\<lambda>i. 7 * i + 1), getFails = False, storeFails = False,
             deleteFails = False, updateFails = False, cleanupFails = False,
             sendFails = False\<rparr>"

text \<open>\<open>undelivered t\<close> is a call at instant \<open>t\<close> during which only the SMTP server fails.\<close>

definition undelivered :: "int \<Rightarrow> env" where
  "undelivered t = (calm t)\<lparr>sendFails := True\<rparr>"

text \<open>Instants and durations given in minutes and in seconds.\<close>

definition minutes :: "int \<Rightarrow> int" where
  "minutes n = n * Minute"

definition seconds :: "int \<Rightarrow> int" where
  "seconds n = n * 1000000000"

text \<open>The stores after a first request for \<open>''a@x.com''\<close> at instant 0.\<close>

definition issued_redis :: redis where
  "issued_redis = snd (SendVerificationEmail_redis (calm 0) ''a@x.com'' Map.empty)"

definition issued_sql :: sqldb where
  "issued_sql = snd (SendVerificationEmail_sql (calm 0) ''a@x.com'' emptyTable)"

text \<open>
  Stores with two records: \<open>''a@x.com''\<close> has used all its attempts,
  \<open>''b@x.com''\<close> none; both were created at instant 0.
\<close>

definition two_redis :: redis where
  "two_redis =
     [key ''a@x.com'' \<mapsto> (\<lparr>Email = ''a@x.com'', OTP = ''185296'', CreatedAt = 0,
                             Attempts = 3, Verified = False\<rparr>, minutes 10),
      key ''b@x.com'' \<mapsto> (\<lparr>Email = ''b@x.com'', OTP = ''185296'', CreatedAt = 0,
                             Attempts = 0, Verified = False\<rparr>, minutes 10)]"

definition two_sql :: sqldb where
  "two_sql =
     \<lparr>rows = [\<lparr>Email = ''a@x.com'', OTP = ''185296'', CreatedAt = 0,
                Attempts = 3, Verified = False, ID = 1\<rparr>,
              \<lparr>Email = ''b@x.com'', OTP = ''185296'', CreatedAt = 0,
                Attempts = 0, Verified = False, ID = 2\<rparr>],
      nextId = 3\<rparr>"


text \<open>
  An email that is not valid UTF-8 (the byte \<open>0xFF\<close> after the \<open>a\<close>), the email
  that JSON makes of it, and the stores after a first request for it at instant 0.
\<close>

definition raw_email :: string where
  "raw_email = ''a'' @ [CHR 0xFF] @ ''@x.com''"

definition coerced_email :: string where
  "coerced_email = ''a'' @ replacementChar @ ''@x.com''"

definition issued_raw_redis :: redis where
  "issued_raw_redis = snd (SendVerificationEmail_redis (calm 0) raw_email Map.empty)"

definition issued_raw_sql :: sqldb where
  "issued_raw_sql = snd (SendVerificationEmail_sql (calm 0) raw_email emptyTable)"

text \<open>Three wrong guesses for the raw email, one minute apart.\<close>

definition wrong_raw_calls :: "(env \<times> string \<times> string) list" where
  "wrong_raw_calls = [(calm (minutes 1), raw_email, ''000000''),
                      (calm (minutes 2), raw_email, ''111111''),
                      (calm (minutes 3), raw_email, ''222222'')]"

text \<open>
  A wrong guess for the raw email, then two wrong guesses for the email that JSON
  makes of it.
\<close>

definition mixed_calls :: "(env \<times> string \<times> string) list" where
  "mixed_calls = [(calm (minutes 1), raw_email, ''000000''),
                  (calm (minutes 2), coerced_email, ''111111''),
                  (calm (minutes 3), coerced_email, ''222222'')]"

text \<open>
  The stores after the first request for the raw email and a verification with the
  right code one minute later.
\<close>

definition verified_raw_redis :: redis where
  "verified_raw_redis =
     snd (VerifyOTP_redis (calm (minutes 1)) raw_email ''185296'' issued_raw_redis)"

definition verified_raw_sql :: sqldb where
  "verified_raw_sql =
     snd (VerifyOTP_sql (calm (minutes 1)) raw_email ''185296'' issued_raw_sql)"

text \<open>The Redis store after the first request for the raw email and the mixed guesses.\<close>

definition mixed_redis :: redis where
  "mixed_redis = snd (VerifyOTP_redis_calls mixed_calls issued_raw_redis)"

section \<open>Basic facts\<close>

lemmas consts_defs = OTPLength_def OTPExpiryMinutes_def MaxAttempts_def ResendDelayMins_def Minute_def
  minutes_def seconds_def
lemmas json_defs = jsonRecord_def jsonString_def replacementChar_def secondLo_def secondHi_def
  continuationByte_def
lemmas redis_defs = SendVerificationEmail_redis_def VerifyOTP_redis_def GetOTP_redis_def
  StoreOTP_redis_def DeleteOTP_redis_def SendEmail_def throttled_def json_defs
lemmas sql_defs = SendVerificationEmail_sql_def VerifyOTP_sql_def GetOTP_sql_def
  StoreOTP_sql_def UpdateOTP_sql_def CleanupExpiredOTPs_sql_def
lemmas eval_defs = consts_defs calm_def undelivered_def generateOTP_def digits_def upt_rec Let_def
  emptyTable_def selectRow_def updateRow_def

lemma key_inj [simp]: "key a = key b \<longleftrightarrow> a = b"
  by (simp add: key_def)

lemma calm_simps [simp]:
  "now (calm t) = t" "\<not> getFails (calm t)" "\<not> storeFails (calm t)" "\<not> deleteFails (calm t)"
  "\<not> updateFails (calm t)" "\<not> cleanupFails (calm t)" "\<not> sendFails (calm t)"
  by (simp_all add: calm_def)

lemma minutes_le [simp]: "minutes a \<le> minutes b \<longleftrightarrow> a \<le> b"
  by (simp add: minutes_def Minute_def)

lemma minutes_less [simp]: "minutes a < minutes b \<longleftrightarrow> a < b"
  by (simp add: minutes_def Minute_def)

lemma expiry_after [simp]: "minutes a + Minute * OTPExpiryMinutes = minutes (a + 10)"
  by (simp add: minutes_def OTPExpiryMinutes_def algebra_simps)

subsection \<open>Strings through JSON\<close>

lemma jsonStringFrom_ascii:
  "\<forall>c \<in> set s. (of_char c :: nat) < 0x80 \<Longrightarrow> jsonStringFrom 0 s = s"
  by (induction s) simp_all

lemma validUTF8_ascii: "\<forall>c \<in> set s. (of_char c :: nat) < 0x80 \<Longrightarrow> validUTF8 s"
  by (simp add: validUTF8_def jsonString_def jsonStringFrom_ascii)

lemma generateOTP_digits: "set (generateOTP clock) \<subseteq> set digits"
proof -
  have "digits ! (n mod length digits) \<in> set digits" for n
    by (rule nth_mem) (simp add: digits_def)
  then show ?thesis
    by (auto simp: generateOTP_def)
qed

lemma validUTF8_generateOTP: "validUTF8 (generateOTP clock)"
proof (rule validUTF8_ascii)
  have "\<forall>c \<in> set digits. (of_char c :: nat) < 0x80"
    by (simp add: digits_def)
  with generateOTP_digits [of clock] show "\<forall>c \<in> set (generateOTP clock). (of_char c :: nat) < 0x80"
    by blast
qed


lemma generateOTP_calm: "generateOTP (nanos (calm t)) = ''185296''"
  by (simp add: generateOTP_def calm_def OTPLength_def digits_def upt_rec)

lemma jsonString_raw_email: "jsonString raw_email = coerced_email"
  by (simp add: raw_email_def coerced_email_def json_defs)

lemma jsonString_coerced_email: "jsonString coerced_email = coerced_email"
  by (simp add: coerced_email_def json_defs)

lemma raw_email_differs [simp]: "raw_email \<noteq> coerced_email" "coerced_email \<noteq> raw_email"
  by (simp_all add: raw_email_def coerced_email_def replacementChar_def)

lemma raw_email_invalid: "\<not> validUTF8 raw_email"
  by (simp add: validUTF8_def jsonString_raw_email)

subsection \<open>Rows of the table\<close>


lemma find_filter_kept:
  "find P xs = Some r \<Longrightarrow> Q r \<Longrightarrow> find P (filter Q xs) = Some r"
  by (induction xs) (auto split: if_splits)











subsection \<open>The stores after a first request\<close>

lemma issued_redis_eq:
  "issued_redis =
     [key ''a@x.com'' \<mapsto> (\<lparr>Email = ''a@x.com'', OTP = ''185296'', CreatedAt = 0,
                             Attempts = 0, Verified = False\<rparr>, minutes 10)]"
  by (simp add: issued_redis_def redis_defs eval_defs)

lemma issued_sql_eq:
  "issued_sql =
     \<lparr>rows = [\<lparr>Email = ''a@x.com'', OTP = ''185296'', CreatedAt = 0,
                Attempts = 0, Verified = False, ID = 1\<rparr>],
      nextId = 2\<rparr>"
  by (simp add: issued_sql_def sql_defs SendEmail_def eval_defs)

lemma issued_redis_a:
  "issued_redis (key ''a@x.com'') =
     Some (\<lparr>Email = ''a@x.com'', OTP = ''185296'', CreatedAt = 0,
             Attempts = 0, Verified = False\<rparr>, minutes 10)"
  by (simp add: issued_redis_eq)

lemma issued_sql_a:
  "selectRow ''a@x.com'' issued_sql =
     Some \<lparr>Email = ''a@x.com'', OTP = ''185296'', CreatedAt = 0,
            Attempts = 0, Verified = False, ID = 1\<rparr>"
  by (simp add: issued_sql_eq selectRow_def)

lemma issued_raw_redis_eq:
  "issued_raw_redis =
     [key raw_email \<mapsto> (\<lparr>Email = coerced_email, OTP = ''185296'', CreatedAt = 0,
                           Attempts = 0, Verified = False\<rparr>, minutes 10)]"
  by (simp add: issued_raw_redis_def SendVerificationEmail_redis_def GetOTP_redis_def
        StoreOTP_redis_def SendEmail_def jsonRecord_def jsonString_raw_email generateOTP_calm
        validUTF8_generateOTP [unfolded validUTF8_def, of "nanos (calm 0)", unfolded generateOTP_calm]
        minutes_def OTPExpiryMinutes_def Minute_def)

lemma issued_raw_sql_eq:
  "issued_raw_sql =
     \<lparr>rows = [\<lparr>Email = raw_email, OTP = ''185296'', CreatedAt = 0,
                Attempts = 0, Verified = False, ID = 1\<rparr>],
      nextId = 2\<rparr>"
  by (simp add: issued_raw_sql_def sql_defs SendEmail_def emptyTable_def selectRow_def
        generateOTP_calm)

section \<open>Where the two programs part\<close>

text \<open>
  Claim C1. For every email and both programs, \<^verbatim>\<open>VerifyOTP\<close> on a record whose
  \<open>CreatedAt\<close> is older than \<open>OTPExpiryMinutes\<close> treats it as absent and fails with
  \<open>NotFoundError\<close>.

  The SQL program does not: \<^verbatim>\<open>GetOTP\<close> selects the row whatever its age and
  \<^verbatim>\<open>VerifyOTP\<close> never reads the clock. A code issued at instant 0 is accepted eleven
  minutes later, although the message of \<open>NotFoundError\<close> reads "no verification code
  found or code has expired". The Redis program rejects the same request.
\<close>

theorem sql_verify_accepts_expired_code:
  "selectRow ''a@x.com'' issued_sql =
     Some \<lparr>Email = ''a@x.com'', OTP = ''185296'', CreatedAt = 0,
            Attempts = 0, Verified = False, ID = 1\<rparr>
   \<and> OTPExpiryMinutes * Minute < minutes 11 - 0
   \<and> fst (VerifyOTP_sql (calm (minutes 11)) ''a@x.com'' ''185296'' issued_sql) = None
   \<and> fst (VerifyOTP_redis (calm (minutes 11)) ''a@x.com'' ''185296'' issued_redis) =
       Some NotFoundError"
  by (simp add: issued_sql_eq issued_redis_eq redis_defs sql_defs eval_defs)

text \<open>
  Claim C8. In the Redis program, persisting the attempts of a failed verification
  does not restart the expiry countdown: no record is reachable by \<^verbatim>\<open>VerifyOTP\<close> after
  \<open>CreatedAt + OTPExpiryMinutes\<close>.

  \<^verbatim>\<open>VerifyOTP\<close> persists through \<^verbatim>\<open>StoreOTP\<close>, which sets the key with the full time
  to live again. After a wrong guess nine minutes after issuance the key lives until
  minute 19, and the right code is accepted at minute 15.
\<close>

theorem redis_wrong_guess_restarts_expiry:
  "fst (VerifyOTP_redis (calm (minutes 9)) ''a@x.com'' ''000000'' issued_redis) =
     Some MismatchError
   \<and> snd (VerifyOTP_redis (calm (minutes 9)) ''a@x.com'' ''000000'' issued_redis) (key ''a@x.com'') =
       Some (\<lparr>Email = ''a@x.com'', OTP = ''185296'', CreatedAt = 0,
               Attempts = 1, Verified = False\<rparr>, minutes 19)
   \<and> fst (VerifyOTP_redis (calm (minutes 15)) ''a@x.com'' ''185296''
            (snd (VerifyOTP_redis (calm (minutes 9)) ''a@x.com'' ''000000'' issued_redis))) = None"
  by (simp add: issued_redis_eq redis_defs eval_defs)

text \<open>
  Claim C5. In both programs, when \<^verbatim>\<open>VerifyOTP\<close> finds \<open>Attempts \<ge> MaxAttempts\<close> it
  fails with \<open>AttemptsExhausted\<close> and deletes the record, so that the next issuance
  starts from no record.

  The Redis program deletes the record; the SQL program returns the error and leaves
  the table as it was (its \<^verbatim>\<open>DBService\<close> has no delete). A new request ten seconds
  later is then throttled by the exhausted record in the SQL program and served in
  the Redis program.
\<close>

theorem sql_exhausted_record_is_kept:
  "VerifyOTP_sql (calm (seconds 20)) ''a@x.com'' ''185296'' two_sql =
     (Some AttemptsExhausted, two_sql)
   \<and> fst (SendVerificationEmail_sql (calm (seconds 30)) ''a@x.com''
            (snd (VerifyOTP_sql (calm (seconds 20)) ''a@x.com'' ''185296'' two_sql))) =
       Some (ThrottleError 1)
   \<and> VerifyOTP_redis (calm (seconds 20)) ''a@x.com'' ''185296'' two_redis =
       (Some AttemptsExhausted, two_redis(key ''a@x.com'' := None))
   \<and> fst (SendVerificationEmail_redis (calm (seconds 30)) ''a@x.com''
            (snd (VerifyOTP_redis (calm (seconds 20)) ''a@x.com'' ''185296'' two_redis))) = None"
  by (simp add: two_sql_def two_redis_def redis_defs sql_defs eval_defs)

text \<open>
  Claim C6. In \<^verbatim>\<open>SendVerificationEmail\<close>, if the delivery fails after the new record
  was stored, the record is deleted again and the call fails with \<open>DeliveryError\<close>,
  in both programs.

  The Redis program deletes the record; the SQL program returns the error of
  \<^verbatim>\<open>SendEmail\<close> and leaves the table exactly as a delivered issuance leaves it, so
  that a retry thirty seconds later is throttled by a code nobody received.
\<close>

theorem sql_failed_delivery_keeps_record:
  "SendVerificationEmail_sql (undelivered 0) ''a@x.com'' emptyTable =
     (Some DeliveryError, issued_sql)
   \<and> fst (SendVerificationEmail_sql (calm (seconds 30)) ''a@x.com'' issued_sql) =
       Some (ThrottleError 1)
   \<and> SendVerificationEmail_redis (undelivered 0) ''a@x.com'' Map.empty =
       (Some DeliveryError, Map.empty)"
  by (simp add: issued_sql_eq redis_defs sql_defs eval_defs)

section \<open>A request inside the resend delay\<close>

lemma selectRow_after_cleanup:
  assumes "selectRow email db = Some row"
    and "now env - CreatedAt row < ResendDelayMins * Minute"
  shows "selectRow email (snd (CleanupExpiredOTPs_sql env db)) = Some row"
proof -
  have "\<not> (CreatedAt row < now env - OTPExpiryMinutes * Minute \<and> \<not> Verified row)"
    using assms(2) by (simp add: consts_defs)
  with assms(1) show ?thesis
    by (simp add: CleanupExpiredOTPs_sql_def selectRow_def find_filter_kept)
qed

lemma SendVerificationEmail_redis_throttled:
  assumes "db (key email) = Some (r, dl)" and "now env \<le> dl" and "\<not> getFails env"
    and "now env - CreatedAt r < ResendDelayMins * Minute"
  shows "SendVerificationEmail_redis env email db = (Some (ThrottleError ResendDelayMins), db)"
  using assms
  by (simp add: SendVerificationEmail_redis_def GetOTP_redis_def throttled_def)

lemma SendVerificationEmail_sql_throttled:
  assumes "selectRow email db = Some row" and "\<not> getFails env"
    and "now env - CreatedAt row < ResendDelayMins * Minute"
  shows "SendVerificationEmail_sql env email db =
           (Some (ThrottleError ResendDelayMins), snd (CleanupExpiredOTPs_sql env db))"
  using assms(2,3) selectRow_after_cleanup [OF assms(1,3)]
  by (simp add: SendVerificationEmail_sql_def GetOTP_sql_def throttled_def Let_def)

text \<open>
  Claim C7. If \<^verbatim>\<open>SendVerificationEmail\<close> is called while a record exists whose
  \<open>CreatedAt\<close> is less than \<open>ResendDelayMins\<close> old, it fails with a \<open>ThrottleError\<close>
  carrying the remaining wait, and the record's code and creation time are unchanged.

  The error does not carry the remaining wait: the message prints the constant
  \<open>ResendDelayMins\<close>. Thirty seconds after issuance the wait that remains is thirty
  seconds and the error says one minute.
\<close>

theorem throttle_error_is_not_the_remaining_wait:
  "\<not> carriesRemainingWait (calm (seconds 30))
       \<lparr>Email = ''a@x.com'', OTP = ''185296'', CreatedAt = 0, Attempts = 0, Verified = False\<rparr>
       (fst (SendVerificationEmail_redis (calm (seconds 30)) ''a@x.com'' issued_redis))"
  by (simp add: carriesRemainingWait_def remainingWait_def issued_redis_eq
        SendVerificationEmail_redis_def GetOTP_redis_def throttled_def consts_defs)

text \<open>
  Claim C7, amended. Such a call fails with \<open>ThrottleError ResendDelayMins\<close>, the
  configured delay in minutes. The wait that remains is positive and, when the record
  was not created in the future, at most that delay. The Redis store is left as it
  was. In the SQL program the table is left as the sweep of expired rows leaves it,
  and the sweep keeps the record of this email as it is.
\<close>

theorem throttled_resend_changes_nothing:
  "(db (key email) = Some (r, dl) \<and> now env \<le> dl \<and> \<not> getFails env
      \<and> now env - CreatedAt r < ResendDelayMins * Minute
    \<longrightarrow> SendVerificationEmail_redis env email db = (Some (ThrottleError ResendDelayMins), db)
        \<and> 0 < remainingWait env r
        \<and> (CreatedAt r \<le> now env \<longrightarrow> remainingWait env r \<le> ResendDelayMins * Minute))
   \<and> (selectRow email sdb = Some row \<and> \<not> getFails env
        \<and> now env - CreatedAt row < ResendDelayMins * Minute
      \<longrightarrow> SendVerificationEmail_sql env email sdb =
            (Some (ThrottleError ResendDelayMins), snd (CleanupExpiredOTPs_sql env sdb))
          \<and> selectRow email (snd (SendVerificationEmail_sql env email sdb)) = Some row
          \<and> 0 < remainingWait env row
          \<and> (CreatedAt row \<le> now env \<longrightarrow> remainingWait env row \<le> ResendDelayMins * Minute))"
proof (intro conjI impI)
  assume "db (key email) = Some (r, dl) \<and> now env \<le> dl \<and> \<not> getFails env
      \<and> now env - CreatedAt r < ResendDelayMins * Minute"
  then have h: "db (key email) = Some (r, dl)" "now env \<le> dl" "\<not> getFails env"
    "now env - CreatedAt r < ResendDelayMins * Minute"
    by simp_all
  then show "SendVerificationEmail_redis env email db = (Some (ThrottleError ResendDelayMins), db)"
    by (rule SendVerificationEmail_redis_throttled)
  from h(4) show "0 < remainingWait env r"
    by (simp add: remainingWait_def)
  assume "CreatedAt r \<le> now env"
  then show "remainingWait env r \<le> ResendDelayMins * Minute"
    by (simp add: remainingWait_def)
next
  assume "selectRow email sdb = Some row \<and> \<not> getFails env
        \<and> now env - CreatedAt row < ResendDelayMins * Minute"
  then have h: "selectRow email sdb = Some row" "\<not> getFails env"
    "now env - CreatedAt row < ResendDelayMins * Minute"
    by simp_all
  then show eq: "SendVerificationEmail_sql env email sdb =
            (Some (ThrottleError ResendDelayMins), snd (CleanupExpiredOTPs_sql env sdb))"
    by (rule SendVerificationEmail_sql_throttled)
  from h show "selectRow email (snd (SendVerificationEmail_sql env email sdb)) = Some row"
    by (simp add: eq selectRow_after_cleanup)
  from h(3) show "0 < remainingWait env row"
    by (simp add: remainingWait_def)
  assume "CreatedAt row \<le> now env"
  then show "remainingWait env row \<le> ResendDelayMins * Minute"
    by (simp add: remainingWait_def)
qed

theorem throttled_resend_changes_nothing_witness:
  "SendVerificationEmail_redis (calm (seconds 30)) ''a@x.com'' issued_redis =
     (Some (ThrottleError ResendDelayMins), issued_redis)
   \<and> remainingWait (calm (seconds 30))
        \<lparr>Email = ''a@x.com'', OTP = ''185296'', CreatedAt = 0,
           Attempts = 0, Verified = False\<rparr> \<le> ResendDelayMins * Minute
   \<and> fst (SendVerificationEmail_sql (calm (seconds 30)) ''a@x.com'' issued_sql) =
       Some (ThrottleError ResendDelayMins)
   \<and> selectRow ''a@x.com'' (snd (SendVerificationEmail_sql (calm (seconds 30)) ''a@x.com'' issued_sql)) =
       Some \<lparr>Email = ''a@x.com'', OTP = ''185296'', CreatedAt = 0,
              Attempts = 0, Verified = False, ID = 1\<rparr>"
  using throttled_resend_changes_nothing
    [where db = issued_redis and email = "''a@x.com''" and env = "calm (seconds 30)"
       and r = "\<lparr>Email = ''a@x.com'', OTP = ''185296'', CreatedAt = 0,
                  Attempts = 0, Verified = False\<rparr>"
       and dl = "minutes 10" and sdb = issued_sql
       and row = "\<lparr>Email = ''a@x.com'', OTP = ''185296'', CreatedAt = 0,
                    Attempts = 0, Verified = False, ID = 1\<rparr>"]
  by (auto simp: issued_redis_a issued_sql_a consts_defs)

section \<open>Using up the attempts\<close>



























section \<open>An email that is not valid UTF-8\<close>

lemma jsonString_code: "jsonString ''185296'' = ''185296''"
  by (simp add: json_defs)

lemmas raw_eval = VerifyOTP_redis_def GetOTP_redis_def StoreOTP_redis_def DeleteOTP_redis_def
  jsonRecord_def jsonString_coerced_email jsonString_code Let_def MaxAttempts_def

lemmas raw_sql_eval = VerifyOTP_sql_def GetOTP_sql_def UpdateOTP_sql_def selectRow_def
  updateRow_def

lemma verified_raw_redis_eq:
  "verified_raw_redis =
     [key raw_email \<mapsto> (\<lparr>Email = coerced_email, OTP = ''185296'', CreatedAt = 0,
                           Attempts = 0, Verified = False\<rparr>, minutes 10),
      key coerced_email \<mapsto> (\<lparr>Email = coerced_email, OTP = ''185296'', CreatedAt = 0,
                               Attempts = 1, Verified = True\<rparr>, minutes 11)]"
  by (simp add: verified_raw_redis_def issued_raw_redis_eq raw_eval)

lemma verified_raw_sql_eq:
  "verified_raw_sql =
     \<lparr>rows = [\<lparr>Email = raw_email, OTP = ''185296'', CreatedAt = 0,
                Attempts = 1, Verified = True, ID = 1\<rparr>],
      nextId = 2\<rparr>"
  by (simp add: verified_raw_sql_def issued_raw_sql_eq raw_sql_eval Let_def MaxAttempts_def)

lemma mixed_redis_eq:
  "mixed_redis =
     [key raw_email \<mapsto> (\<lparr>Email = coerced_email, OTP = ''185296'', CreatedAt = 0,
                           Attempts = 0, Verified = False\<rparr>, minutes 10),
      key coerced_email \<mapsto> (\<lparr>Email = coerced_email, OTP = ''185296'', CreatedAt = 0,
                               Attempts = 3, Verified = False\<rparr>, minutes 13)]"
  by (simp add: mixed_redis_def mixed_calls_def issued_raw_redis_eq raw_eval)

text \<open>
  Claim C4. In \<^verbatim>\<open>VerifyOTP\<close>, once the guards of a pending record pass, \<open>Attempts\<close>
  is incremented before the codes are compared; on a mismatch the incremented value
  is persisted and the call fails with \<open>MismatchError\<close>; the increment is never
  skipped.

  In the Redis program the incremented record is stored by \<^verbatim>\<open>StoreOTP\<close> under the key
  of \<^verbatim>\<open>record.Email\<close> as JSON gave it back, while \<^verbatim>\<open>GetOTP\<close> reads under the key of
  the email of the request. For an email that is not valid UTF-8 the two keys
  differ: the record that was read keeps \<open>Attempts = 0\<close>, every wrong guess is a
  mismatch, and after \<open>MaxAttempts\<close> of them the right code is still accepted. The
  SQL program counts the attempt and answers \<open>AttemptsExhausted\<close>.
\<close>

theorem redis_attempt_counted_under_another_key:
  "\<not> validUTF8 raw_email
   \<and> issued_raw_redis (key raw_email) =
       Some (\<lparr>Email = coerced_email, OTP = ''185296'', CreatedAt = 0,
               Attempts = 0, Verified = False\<rparr>, minutes 10)
   \<and> VerifyOTP_redis (calm (minutes 1)) raw_email ''000000'' issued_raw_redis =
       (Some MismatchError,
        issued_raw_redis(key coerced_email \<mapsto>
          (\<lparr>Email = coerced_email, OTP = ''185296'', CreatedAt = 0,
             Attempts = 1, Verified = False\<rparr>, minutes 11)))
   \<and> snd (VerifyOTP_redis (calm (minutes 1)) raw_email ''000000'' issued_raw_redis)
        (key raw_email) =
       Some (\<lparr>Email = coerced_email, OTP = ''185296'', CreatedAt = 0,
               Attempts = 0, Verified = False\<rparr>, minutes 10)
   \<and> fst (VerifyOTP_redis_calls wrong_raw_calls issued_raw_redis) =
       [Some MismatchError, Some MismatchError, Some MismatchError]
   \<and> snd (VerifyOTP_redis_calls wrong_raw_calls issued_raw_redis) (key raw_email) =
       Some (\<lparr>Email = coerced_email, OTP = ''185296'', CreatedAt = 0,
               Attempts = 0, Verified = False\<rparr>, minutes 10)
   \<and> fst (VerifyOTP_redis (calm (minutes 4)) raw_email ''185296''
            (snd (VerifyOTP_redis_calls wrong_raw_calls issued_raw_redis))) = None
   \<and> selectRow raw_email
        (snd (VerifyOTP_sql (calm (minutes 1)) raw_email ''000000'' issued_raw_sql)) =
       Some \<lparr>Email = raw_email, OTP = ''185296'', CreatedAt = 0,
              Attempts = 1, Verified = False, ID = 1\<rparr>
   \<and> fst (VerifyOTP_sql (calm (minutes 4)) raw_email ''185296''
            (snd (VerifyOTP_sql_calls wrong_raw_calls issued_raw_sql))) = Some AttemptsExhausted"
  by (simp add: raw_email_invalid issued_raw_redis_eq issued_raw_sql_eq wrong_raw_calls_def
        raw_eval raw_sql_eval)

text \<open>
  Claim C3. For every email and every sequence of \<^verbatim>\<open>VerifyOTP\<close> calls, the stored
  record's \<open>Attempts\<close> never exceeds \<open>MaxAttempts\<close> and never decreases within a
  record's lifetime; once it has reached the bound, no further \<^verbatim>\<open>VerifyOTP\<close> call
  succeeds against that record.

  In the Redis program, after one request for the raw email, a wrong guess for it
  and two wrong guesses for the email JSON makes of it, the record under the second
  email's key has reached the bound. One more wrong guess for the raw email stores
  the record read under the raw key, with \<open>Attempts = 1\<close>, over it: same email,
  code and creation time, fewer attempts. The right code is then accepted for it.
  Only \<^verbatim>\<open>VerifyOTP\<close> calls follow the one issuance.
\<close>

theorem redis_exhausted_record_counts_down:
  "mixed_redis (key coerced_email) =
     Some (\<lparr>Email = coerced_email, OTP = ''185296'', CreatedAt = 0,
             Attempts = 3, Verified = False\<rparr>, minutes 13)
   \<and> fst (VerifyOTP_redis (calm (minutes 4)) raw_email ''333333'' mixed_redis) =
       Some MismatchError
   \<and> snd (VerifyOTP_redis (calm (minutes 4)) raw_email ''333333'' mixed_redis)
        (key coerced_email) =
       Some (\<lparr>Email = coerced_email, OTP = ''185296'', CreatedAt = 0,
               Attempts = 1, Verified = False\<rparr>, minutes 14)
   \<and> fst (VerifyOTP_redis (calm (minutes 5)) coerced_email ''185296''
            (snd (VerifyOTP_redis (calm (minutes 4)) raw_email ''333333'' mixed_redis))) = None"
  by (simp add: mixed_redis_eq raw_eval)

text \<open>
  Claim C9. Within a record instance \<open>Verified\<close> is written once, from false to
  true: \<^verbatim>\<open>VerifyOTP\<close> on a verified record fails with \<open>AlreadyVerifiedError\<close> and
  changes nothing, and only a new issuance makes \<open>Verified\<close> false again.

  In the Redis program, after a successful verification for the raw email the
  verified record sits under the key of the email JSON makes of it. A wrong guess
  for the raw email then reads the unverified record under the raw key and stores
  it, unverified, over the verified one, with no issuance in between. The SQL
  program answers \<open>AlreadyVerifiedError\<close> and leaves the table as it was.
\<close>

theorem redis_verified_record_is_unverified_again:
  "fst (VerifyOTP_redis (calm (minutes 1)) raw_email ''185296'' issued_raw_redis) = None
   \<and> verified_raw_redis (key coerced_email) =
       Some (\<lparr>Email = coerced_email, OTP = ''185296'', CreatedAt = 0,
               Attempts = 1, Verified = True\<rparr>, minutes 11)
   \<and> fst (VerifyOTP_redis (calm (minutes 2)) raw_email ''000000'' verified_raw_redis) =
       Some MismatchError
   \<and> snd (VerifyOTP_redis (calm (minutes 2)) raw_email ''000000'' verified_raw_redis)
        (key coerced_email) =
       Some (\<lparr>Email = coerced_email, OTP = ''185296'', CreatedAt = 0,
               Attempts = 1, Verified = False\<rparr>, minutes 12)
   \<and> VerifyOTP_sql (calm (minutes 2)) raw_email ''000000'' verified_raw_sql =
       (Some AlreadyVerifiedError, verified_raw_sql)"
  by (simp add: verified_raw_redis_eq verified_raw_sql_eq issued_raw_redis_eq raw_eval raw_sql_eval)

text \<open>
  Claim C10. A successful \<^verbatim>\<open>VerifyOTP\<close> persists the record with \<open>Verified = True\<close>,
  so that the verified record of that email remains in the store.

  In the Redis program, after a successful verification for the raw email the
  record that \<^verbatim>\<open>GetOTP\<close> returns for that email is still unverified with no attempt
  counted, and the same code is accepted a second time. The SQL program keeps the
  verified row and answers \<open>AlreadyVerifiedError\<close> to the second call.
\<close>

theorem redis_success_is_not_recorded_for_the_email:
  "fst (VerifyOTP_redis (calm (minutes 1)) raw_email ''185296'' issued_raw_redis) = None
   \<and> verified_raw_redis (key raw_email) =
       Some (\<lparr>Email = coerced_email, OTP = ''185296'', CreatedAt = 0,
               Attempts = 0, Verified = False\<rparr>, minutes 10)
   \<and> GetOTP_redis (calm (minutes 2)) raw_email verified_raw_redis =
       Inr \<lparr>Email = coerced_email, OTP = ''185296'', CreatedAt = 0,
             Attempts = 0, Verified = False\<rparr>
   \<and> fst (VerifyOTP_redis (calm (minutes 2)) raw_email ''185296'' verified_raw_redis) = None
   \<and> selectRow raw_email verified_raw_sql =
       Some \<lparr>Email = raw_email, OTP = ''185296'', CreatedAt = 0,
              Attempts = 1, Verified = True, ID = 1\<rparr>
   \<and> fst (VerifyOTP_sql (calm (minutes 2)) raw_email ''185296'' verified_raw_sql) =
       Some AlreadyVerifiedError"
  by (simp add: verified_raw_redis_eq verified_raw_sql_eq issued_raw_redis_eq raw_eval raw_sql_eval)

end
